theory Spec2Isabelle
  imports Main "HOL-Library.Word"
begin

section \<open>The Luau shim of ziglua: assertion bridge and memory release\<close>

text \<open>
  The source file \<^verbatim>\<open>src/zigluau/luau.cpp\<close> holds three functions: the static callback
  \<^verbatim>\<open>assertionHandler\<close>, the entry point \<^verbatim>\<open>zig_registerAssertionHandler\<close> that stores the
  callback in the runtime's process-wide handler slot, and the entry point
  \<^verbatim>\<open>zig_luau_free\<close> that hands a pointer to the host allocator's \<^verbatim>\<open>free\<close>.
  They act on the process: the standard output stream, the handler slot and the heap.
  The model passes that state explicitly.
\<close>

subsection \<open>Values crossing the boundary\<close>

text \<open>
  A \<^verbatim>\<open>const char*\<close> argument is modelled by the text it points to (the bytes before the
  terminating NUL); the runtime passes string literals, so the null pointer is not an
  input. A C \<^verbatim>\<open>int\<close> is a 32-bit word, read as signed by \<open>sint\<close>. A \<^verbatim>\<open>void*\<close> is the null
  pointer or the address of a block.
\<close>

type_synonym cstring = string
type_synonym c_int = "32 word"

datatype ptr = NULL | Addr nat

text \<open>
  Undefined behaviour of the C library is an error value, so that a call the C standard
  does not define is a branch of the model and not a silent result.
\<close>

datatype error = UndefinedBehaviour

text \<open>
  A function pointer of type \<^verbatim>\<open>Luau::AssertHandler\<close>: the address of the shim's callback,
  or of some other function installed by another component.
\<close>

datatype fnptr = AssertionHandler | Foreign nat

text \<open>
  The process state: what was written to standard output so far, the static slot behind
  \<^verbatim>\<open>Luau::assertHandler()\<close> (\<open>None\<close> is \<^verbatim>\<open>nullptr\<close>), and the state of the host allocator.
\<close>

record 'h process =
  stdout :: string
  assertHandler :: "fnptr option"
  heap :: 'h

subsection \<open>The C library's \<^verbatim>\<open>printf\<close>\<close>

text \<open>Decimal rendering, as the conversion \<^verbatim>\<open>%d\<close> prints a signed integer.\<close>

definition digit_char :: "nat \<Rightarrow> char" where
  "digit_char d = ''0123456789'' ! (d mod 10)"

function dec_nat :: "nat \<Rightarrow> string" where
  "dec_nat n = (if n < 10 then [digit_char n] else dec_nat (n div 10) @ [digit_char (n mod 10)])"
  by pat_completeness auto
termination
  by (relation "measure id") auto

declare dec_nat.simps [simp del]

definition dec_int :: "int \<Rightarrow> string" where
  "dec_int i = (if i < 0 then CHR ''-'' # dec_nat (nat (- i)) else dec_nat (nat i))"

text \<open>Reading a decimal numeral back, to state that the rendering is the right one.\<close>

definition digit_val :: "char \<Rightarrow> nat" where
  "digit_val c = of_char c - 48"

definition dec_value :: "string \<Rightarrow> nat" where
  "dec_value cs = foldl (\<lambda>a c. 10 * a + digit_val c) 0 cs"

text \<open>
  The variable arguments of a \<^verbatim>\<open>printf\<close> call, and the interpretation of a format string
  with the conversions \<^verbatim>\<open>%s\<close>, \<^verbatim>\<open>%d\<close> and \<^verbatim>\<open>%%\<close>. A conversion whose argument is missing or
  of the wrong type, and any other conversion, is undefined: \<open>None\<close>. The text of a
  \<^verbatim>\<open>%s\<close> argument is copied, never interpreted as a format again.
\<close>

datatype printf_arg = ArgStr cstring | ArgInt c_int

fun format :: "string \<Rightarrow> printf_arg list \<Rightarrow> string option" where
  "format [] args = Some []"
| "format (c # fmt) args =
     (if c \<noteq> CHR ''%'' then map_option ((#) c) (format fmt args)
      else (case fmt of
          [] \<Rightarrow> None
        | d # rest \<Rightarrow>
            if d = CHR ''%'' then map_option ((#) CHR ''%'') (format rest args)
            else if d = CHR ''s'' then
              (case args of
                 ArgStr s # args' \<Rightarrow> map_option ((@) s) (format rest args')
               | _ \<Rightarrow> None)
            else if d = CHR ''d'' then
              (case args of
                 ArgInt i # args' \<Rightarrow> map_option ((@) (dec_int (sint i))) (format rest args')
               | _ \<Rightarrow> None)
            else None))"

text \<open>
  \<^verbatim>\<open>printf\<close> appends the formatted text to standard output and returns the number of
  characters written. Standard output is taken to be open and writable. Standard output
  is a buffered stream, and writing to it may use the allocator: a C library allocates
  the stream's buffer when the stream is first written. What the write of a text does to
  the allocator state is not fixed by the C standard; it is the parameter \<open>stdio\<close>, a
  function of the text written and of the allocator state. The handler slot is a static
  variable of the runtime, out of the library's reach.
\<close>

definition printf ::
  "(string \<Rightarrow> 'h \<Rightarrow> 'h) \<Rightarrow> string \<Rightarrow> printf_arg list \<Rightarrow> 'h process \<Rightarrow> error + (int \<times> 'h process)" where
  "printf stdio fmt args s =
     (case format fmt args of
        None \<Rightarrow> Inl UndefinedBehaviour
      | Some txt \<Rightarrow>
          Inr (int (length txt), s\<lparr>stdout := stdout s @ txt, heap := stdio txt (heap s)\<rparr>))"

subsection \<open>The assertion bridge\<close>

text \<open>
  \<^verbatim>\<open>static int assertionHandler(const char* expr, const char* file, int line, const char* function)\<close>:
  one \<^verbatim>\<open>printf\<close> call, whose result is discarded, then \<^verbatim>\<open>return 1\<close>. The first argument of
  the model is the allocator effect of the C library the process is linked with, handed
  on to \<^verbatim>\<open>printf\<close>.
\<close>

definition assertionHandler ::
  "(string \<Rightarrow> 'h \<Rightarrow> 'h) \<Rightarrow> cstring \<Rightarrow> cstring \<Rightarrow> c_int \<Rightarrow> cstring \<Rightarrow> 'h process \<Rightarrow>
   error + (c_int \<times> 'h process)" where
  "assertionHandler stdio expr file line function s =
     (case printf stdio ''%s(%d): ASSERTION FAILED: %s\<newline>''
             [ArgStr file, ArgInt line, ArgStr expr] s of
        Inl e \<Rightarrow> Inl e
      | Inr (_, s') \<Rightarrow> Inr (1, s'))"

text \<open>
  \<^verbatim>\<open>zig_registerAssertionHandler\<close>: the accessor \<^verbatim>\<open>Luau::assertHandler()\<close> returns a reference
  to the process-wide slot, and the assignment through it stores the callback's address.
\<close>

definition zig_registerAssertionHandler :: "'h process \<Rightarrow> 'h process" where
  "zig_registerAssertionHandler s = s\<lparr>assertHandler := Some AssertionHandler\<rparr>"

text \<open>
  Modelled from the spec: the runtime's invariant check, declared in \<^verbatim>\<open>Luau/Common.h\<close>, which
  is not among the sources. On a failed check the runtime invokes the callback held in
  the global handler slot, once, with the report tuple, and takes the returned status: a
  non-zero value makes it abort, zero makes it continue. The behaviour of a callback
  other than the shim's is the parameter \<open>foreign\<close>. The spec does not say what happens
  while the slot is empty; the model then requests the abort and prints nothing, and no
  theorem below depends on that case.
\<close>

definition assertCallHandler ::
  "(string \<Rightarrow> 'h \<Rightarrow> 'h) \<Rightarrow>
   (nat \<Rightarrow> cstring \<Rightarrow> cstring \<Rightarrow> c_int \<Rightarrow> cstring \<Rightarrow> 'h process \<Rightarrow> error + (c_int \<times> 'h process)) \<Rightarrow>
   cstring \<Rightarrow> cstring \<Rightarrow> c_int \<Rightarrow> cstring \<Rightarrow> 'h process \<Rightarrow> error + (c_int \<times> 'h process)" where
  "assertCallHandler stdio foreign expr file line function s =
     (case assertHandler s of
        None \<Rightarrow> Inr (1, s)
      | Some AssertionHandler \<Rightarrow> assertionHandler stdio expr file line function s
      | Some (Foreign k) \<Rightarrow> foreign k expr file line function s)"

subsection \<open>The memory release shim\<close>

text \<open>
  \<^verbatim>\<open>extern "C" void zig_luau_free(void *ptr) { free(ptr); }\<close>: the pointer is handed to the
  release primitive of whichever allocator the process is linked with. The primitive is
  the first argument of the model; it acts on the allocator state only, and what it
  leaves undefined stays undefined.
\<close>

definition zig_luau_free ::
  "(ptr \<Rightarrow> 'h \<Rightarrow> error + 'h) \<Rightarrow> ptr \<Rightarrow> 'h process \<Rightarrow> error + 'h process" where
  "zig_luau_free free ptr s =
     (case free ptr (heap s) of
        Inl e \<Rightarrow> Inl e
      | Inr h' \<Rightarrow> Inr (s\<lparr>heap := h'\<rparr>))"

text \<open>
  Modelled from the spec: the host allocator's release primitive, the C library's
  \<^verbatim>\<open>free\<close>, which is not among the sources. The allocator state is the set of addresses of
  the blocks handed out and not yet released. In the spec's words the handle is
  "either a null value (no-op) or a value previously returned by the embedded runtime's
  allocator and not yet released", whose memory goes back to the allocator; any other
  handle, a released one included, is "a contract violation with undefined consequences
  (no detection, no recovery)".
\<close>

type_synonym heap = "nat set"

fun libc_free :: "ptr \<Rightarrow> heap \<Rightarrow> error + heap" where
  "libc_free NULL h = Inr h"
| "libc_free (Addr a) h = (if a \<in> h then Inr (h - {a}) else Inl UndefinedBehaviour)"

text \<open>
  An allocator effect that C libraries have: the buffer of standard output is allocated
  when the stream is first written. \<open>buf\<close> is the address of that buffer; once it is
  among the live blocks, further writes leave the allocator state as it is.
\<close>

definition stdout_first_use :: "nat \<Rightarrow> string \<Rightarrow> heap \<Rightarrow> heap" where
  "stdout_first_use buf txt h = insert buf h"

section \<open>Properties of the C library model\<close>

lemma digit_val_table: "\<forall>d \<in> set [0..<10]. digit_val (digit_char d) = d"
  by code_simp

lemma digit_val_digit_char: "d < 10 \<Longrightarrow> digit_val (digit_char d) = d"
  using digit_val_table by simp

text \<open>The numeral printed for \<open>n\<close> reads back as \<open>n\<close>, and consists of digits only.\<close>

lemma dec_value_dec_nat: "dec_value (dec_nat n) = n"
proof (induction n rule: dec_nat.induct)
  case (1 n)
  show ?case
  proof (cases "n < 10")
    case True
    then show ?thesis
      by (simp add: dec_nat.simps [of n] dec_value_def digit_val_digit_char)
  next
    case False
    then have "dec_value (dec_nat (n div 10)) = n div 10"
      using "1.IH" by simp
    then show ?thesis
      using False
      by (simp add: dec_nat.simps [of n] dec_value_def digit_val_digit_char)
  qed
qed

lemma digit_char_digit: "digit_char d \<in> set ''0123456789''"
  unfolding digit_char_def by (rule nth_mem) simp

lemma dec_nat_digits: "set (dec_nat n) \<subseteq> set ''0123456789''"
proof (induction n rule: dec_nat.induct)
  case (1 n)
  show ?case
  proof (cases "n < 10")
    case True
    then show ?thesis
      using digit_char_digit [of n] by (simp add: dec_nat.simps [of n])
  next
    case False
    then show ?thesis
      using "1.IH" digit_char_digit [of "n mod 10"] by (simp add: dec_nat.simps [of n])
  qed
qed

lemma dec_int_line_42: "dec_int 42 = ''42''"
  by (simp add: dec_int_def dec_nat.simps [of 42] dec_nat.simps [of 4] digit_char_def)

text \<open>
  The format string of the handler, applied to its three arguments. The arguments are
  copied as they are, so a \<^verbatim>\<open>%\<close> inside the file name or the expression is printed and
  not interpreted.
\<close>

lemma format_diagnostic:
  "format ''%s(%d): ASSERTION FAILED: %s\<newline>'' [ArgStr file, ArgInt line, ArgStr expr] =
     Some (file @ ''('' @ dec_int (sint line) @ ''): ASSERTION FAILED: '' @ expr @ ''\<newline>'')"
  by simp

text \<open>
  The decimal numeral holds no newline, so the text the handler's format produces is a
  single line, ended by the only newline in it, whenever the file name and the expression
  hold none themselves.
\<close>

lemma dec_int_no_newline: "CHR 0x0A \<notin> set (dec_int i)"
proof -
  have "CHR 0x0A \<notin> set ''0123456789''" by simp
  then have "CHR 0x0A \<notin> set (dec_nat n)" for n
    using dec_nat_digits [of n] by blast
  then show ?thesis by (simp add: dec_int_def)
qed

lemma diagnostic_single_line:
  "CHR 0x0A \<notin> set file \<Longrightarrow> CHR 0x0A \<notin> set expr \<Longrightarrow>
   count_list (file @ ''('' @ dec_int (sint line) @ ''): ASSERTION FAILED: '' @ expr @ ''\<newline>'')
     (CHR 0x0A) = 1"
  using dec_int_no_newline [of "sint line"]
  by (simp add: count_list_0_iff)

text \<open>Releasing a live block removes it from the allocator state; a second release is undefined.\<close>

lemma libc_free_live: "a \<in> h \<Longrightarrow> libc_free (Addr a) h = Inr (h - {a})"
  by simp

lemma libc_free_twice:
  "libc_free (Addr a) h = Inr h' \<Longrightarrow> libc_free (Addr a) h' = Inl UndefinedBehaviour"
  by (auto split: if_splits)

section \<open>Properties of the assertion handler\<close>

text \<open>
  The handler's whole effect, for every report tuple, every process state and every
  allocator effect of the library: the \<^verbatim>\<open>printf\<close> call is well formed, appends one line to
  standard output, the library does to the allocator what it does for that write, and 1
  is returned.
\<close>

lemma assertionHandler_result:
  "assertionHandler stdio expr file line function s =
     Inr (1, s\<lparr>stdout := stdout s @ file @ ''('' @ dec_int (sint line) @
                    ''): ASSERTION FAILED: '' @ expr @ ''\<newline>'',
                heap := stdio (file @ ''('' @ dec_int (sint line) @
                    ''): ASSERTION FAILED: '' @ expr @ ''\<newline>'') (heap s)\<rparr>)"
  unfolding assertionHandler_def printf_def format_diagnostic by simp

text \<open>
  Claim C1. For every report tuple (expression text, file name, line number, function
  name) the handler returns normally and what it appends to standard output is exactly
  the file name, the line number in decimal between parentheses, the text
  \<^verbatim>\<open>: ASSERTION FAILED: \<close>, the expression text and one newline, with nothing before, between
  or after. For the expression \<^verbatim>\<open>x > 0\<close>, the file \<^verbatim>\<open>script.cpp\<close> and line 42 the output is
  the line \<^verbatim>\<open>script.cpp(42): ASSERTION FAILED: x > 0\<close>.
\<close>

theorem assertionHandler_diagnostic_line:
  "(\<exists>r s'. assertionHandler stdio expr file line function s = Inr (r, s') \<and>
      stdout s' = stdout s @ file @ ''('' @ dec_int (sint line) @ ''): ASSERTION FAILED: '' @
                  expr @ ''\<newline>'') \<and>
   (\<exists>r s'. assertionHandler stdio ''x > 0'' ''script.cpp'' 42 function s = Inr (r, s') \<and>
      stdout s' = stdout s @ ''script.cpp(42): ASSERTION FAILED: x > 0\<newline>'')"
  by (simp add: assertionHandler_result dec_int_line_42)

text \<open>
  Claim C2. For every report tuple and every process state the handler returns a status,
  and the status is not zero: it always asks the runtime to abort.
\<close>

theorem assertionHandler_status_nonzero:
  "\<exists>r s'. assertionHandler stdio expr file line function s = Inr (r, s') \<and> r \<noteq> 0"
  by (simp add: assertionHandler_result)

text \<open>
  Claim C9. For every report tuple and every process state the status the handler returns
  is the constant 1.
\<close>

theorem assertionHandler_returns_one:
  "\<exists>s'. assertionHandler stdio expr file line function s = Inr (1, s')"
  by (simp add: assertionHandler_result)

text \<open>
  Claim C6, as stated, says that a handler invocation changes nothing but standard
  output, the allocator state included. It fails where the library allocates the buffer
  of standard output at the first write: called in a process that has written nothing
  yet and holds no block, the handler returns in a state whose allocator holds the
  buffer, so the allocator state after the call is not the one before it.
\<close>

theorem assertionHandler_frame_counterexample:
  "assertionHandler (stdout_first_use 4096) ''x > 0'' ''script.cpp'' 42 ''f''
       \<lparr>stdout = '''', assertHandler = Some AssertionHandler, heap = {}\<rparr> =
     Inr (1, \<lparr>stdout = ''script.cpp(42): ASSERTION FAILED: x > 0\<newline>'',
              assertHandler = Some AssertionHandler, heap = {4096}\<rparr>) \<and>
   heap \<lparr>stdout = ''script.cpp(42): ASSERTION FAILED: x > 0\<newline>'',
         assertHandler = Some AssertionHandler, heap = {4096 :: nat}\<rparr> \<noteq>
   heap \<lparr>stdout = '''', assertHandler = Some AssertionHandler, heap = {}\<rparr>"
  by (simp add: assertionHandler_result dec_int_line_42 stdout_first_use_def)

text \<open>
  Claim C6, amended. For every report tuple, every process state and every allocator
  effect of the library, a handler invocation returns, leaves the handler slot as it was
  and appends its one line to standard output; the allocator state after the call is what
  the library's write of that line makes of the allocator state before it, and nothing
  else of the process changes. The handler has no effect of its own besides the
  \<^verbatim>\<open>printf\<close> call.
\<close>

theorem assertionHandler_effects:
  "\<exists>r s'. assertionHandler stdio expr file line function s = Inr (r, s') \<and>
     assertHandler s' = assertHandler s \<and>
     heap s' = stdio (file @ ''('' @ dec_int (sint line) @
                   ''): ASSERTION FAILED: '' @ expr @ ''\<newline>'') (heap s) \<and>
     s' = s\<lparr>stdout := stdout s @ file @ ''('' @ dec_int (sint line) @
                   ''): ASSERTION FAILED: '' @ expr @ ''\<newline>'',
              heap := stdio (file @ ''('' @ dec_int (sint line) @
                   ''): ASSERTION FAILED: '' @ expr @ ''\<newline>'') (heap s)\<rparr>"
  by (simp add: assertionHandler_result)

text \<open>
  Claim C10. The function-name argument is received and never used: two invocations that
  differ in that argument only give the same result, that is the same status and the same
  state, hence the same emitted line.
\<close>

theorem assertionHandler_ignores_function:
  "assertionHandler stdio expr file line function1 s =
     assertionHandler stdio expr file line function2 s"
  by (simp add: assertionHandler_result)

section \<open>Properties of the registration\<close>

lemma zig_registerAssertionHandler_twice:
  "zig_registerAssertionHandler (zig_registerAssertionHandler s) = zig_registerAssertionHandler s"
  by (simp add: zig_registerAssertionHandler_def)

lemma assertCallHandler_registered:
  "assertCallHandler stdio foreign expr file line function (zig_registerAssertionHandler s) =
     assertionHandler stdio expr file line function (zig_registerAssertionHandler s)"
  by (simp add: assertCallHandler_def zig_registerAssertionHandler_def)

text \<open>
  Claim C3. Registering twice in a row leaves the process in the state that registering
  once leaves it in, whatever the state before. An invariant failure reported after two
  registrations is handled as after one: the shim's callback runs once, appends its one
  line to standard output, and the abort is requested. The allocator state is then what
  the library's write of that one line makes of it.
\<close>

theorem zig_registerAssertionHandler_idempotent:
  "zig_registerAssertionHandler (zig_registerAssertionHandler s) = zig_registerAssertionHandler s \<and>
   assertCallHandler stdio foreign expr file line function
       (zig_registerAssertionHandler (zig_registerAssertionHandler s)) =
     Inr (1, (zig_registerAssertionHandler s)
               \<lparr>stdout := stdout s @ file @ ''('' @ dec_int (sint line) @
                   ''): ASSERTION FAILED: '' @ expr @ ''\<newline>'',
                heap := stdio (file @ ''('' @ dec_int (sint line) @
                   ''): ASSERTION FAILED: '' @ expr @ ''\<newline>'') (heap s)\<rparr>)"
  by (simp add: zig_registerAssertionHandler_twice assertCallHandler_registered
      assertionHandler_result)
    (simp add: zig_registerAssertionHandler_def)

text \<open>
  Claim C5. The registration is a total function of the process state with no error
  result. Whatever the handler slot held before (nothing, the shim's callback or the
  callback of another component), the slot holds the shim's callback afterwards, the
  resulting state does not depend on the previous content of the slot, and standard
  output and the allocator state are untouched.
\<close>

theorem zig_registerAssertionHandler_installs:
  "assertHandler (zig_registerAssertionHandler (s\<lparr>assertHandler := previous\<rparr>)) = Some AssertionHandler \<and>
   zig_registerAssertionHandler (s\<lparr>assertHandler := previous\<rparr>) = zig_registerAssertionHandler s \<and>
   stdout (zig_registerAssertionHandler s) = stdout s \<and>
   heap (zig_registerAssertionHandler s) = heap s"
  by (simp add: zig_registerAssertionHandler_def)

section \<open>Properties of the memory release\<close>

text \<open>
  Claim C4. Releasing the null handle returns normally and leaves the whole process state
  as it was: nothing is written to standard output, the handler slot and the allocator
  state are unchanged.
\<close>

theorem zig_luau_free_null_noop:
  "zig_luau_free libc_free NULL s = Inr s"
  by (simp add: zig_luau_free_def)

text \<open>
  Claim C7. For every release primitive, every handle and every process state, the shim
  does what the primitive does on the allocator state and nothing more: it is undefined
  exactly when the primitive is, and it returns exactly when the primitive returns, with
  the allocator state the primitive produced and the rest of the process unchanged. No
  handle is checked, tracked or filtered on the way.
\<close>

theorem zig_luau_free_is_release_primitive:
  "(zig_luau_free prim p s = Inl e) = (prim p (heap s) = Inl e) \<and>
   (zig_luau_free prim p s = Inr s') = (\<exists>h'. prim p (heap s) = Inr h' \<and> s' = s\<lparr>heap := h'\<rparr>)"
  by (auto simp: zig_luau_free_def split: sum.splits)

theorem zig_luau_free_is_release_primitive_witness:
  "zig_luau_free libc_free (Addr 8) \<lparr>stdout = '''', assertHandler = None, heap = {8}\<rparr> =
     Inr \<lparr>stdout = '''', assertHandler = None, heap = {}\<rparr> \<and>
   zig_luau_free libc_free (Addr 8) \<lparr>stdout = '''', assertHandler = None, heap = {}\<rparr> =
     Inl UndefinedBehaviour"
  using zig_luau_free_is_release_primitive
          [of libc_free "Addr 8" "\<lparr>stdout = '''', assertHandler = None, heap = {8}\<rparr>"
              UndefinedBehaviour "\<lparr>stdout = '''', assertHandler = None, heap = {}\<rparr>"]
        zig_luau_free_is_release_primitive
          [of libc_free "Addr 8" "\<lparr>stdout = '''', assertHandler = None, heap = {}\<rparr>"
              UndefinedBehaviour "\<lparr>stdout = '''', assertHandler = None, heap = {}\<rparr>"]
  by simp

end
